theory Spec2Isabelle
  imports Complex_Main
begin

section \<open>The decimal arithmetic the calculator runs on\<close>

text \<open>
  \<^verbatim>\<open>MonthlyPayCalc.py\<close> computes with Python's \<^verbatim>\<open>decimal.Decimal\<close> under the
  process-wide context set in line 6, \<^verbatim>\<open>getcontext().prec = 10\<close>; every other field of
  the context keeps the value of \<^verbatim>\<open>DefaultContext\<close>: rounding \<^verbatim>\<open>ROUND_HALF_EVEN\<close>,
  \<^verbatim>\<open>Emax = 999999\<close>, \<^verbatim>\<open>Emin = -999999\<close>, \<^verbatim>\<open>clamp = 0\<close>, and the traps
  \<^verbatim>\<open>InvalidOperation\<close>, \<^verbatim>\<open>DivisionByZero\<close> and \<^verbatim>\<open>Overflow\<close>, which turn these three
  signals into raised exceptions.

  A finite \<^verbatim>\<open>Decimal\<close> is the triple \<^verbatim>\<open>(_sign, _int, _exp)\<close> of the library: a sign
  bit, the coefficient (a digit string without leading zeros, here a natural number) and
  the exponent; its value is \<open>(-1)^_sign * _int * 10^_exp\<close>. The operations below follow
  the library's reference implementation \<^verbatim>\<open>_pydecimal.py\<close> branch by branch for finite
  operands. NaN and the infinities are not represented: the calculator is given finite
  numbers, and with the three traps set no operation on finite operands returns a special
  value, except \<^verbatim>\<open>0 ** n\<close> for negative \<open>n\<close> (see \<open>dec_pow\<close>).
\<close>

record decimal =
  d_sign :: bool
  d_int :: nat
  d_exp :: int

datatype error = InvalidOperation | DivisionByZero | Overflow

datatype rounding = ROUND_HALF_UP | ROUND_HALF_EVEN

definition prec :: int where
  "prec = 10"

definition Emax :: int where
  "Emax = 999999"

definition Emin :: int where
  "Emin = - 999999"

definition Etiny :: int where
  "Etiny = Emin - prec + 1"

definition Etop :: int where
  "Etop = Emax - prec + 1"

text \<open>\<^verbatim>\<open>len(str(n))\<close>: the number of decimal digits of a coefficient; \<open>0\<close> has one digit.\<close>

fun ndigits :: "nat \<Rightarrow> nat" where
  "ndigits n = (if n < 10 then 1 else Suc (ndigits (n div 10)))"

declare ndigits.simps [simp del]

definition adjusted :: "decimal \<Rightarrow> int" where
  "adjusted self = d_exp self + int (ndigits (d_int self)) - 1"

text \<open>
  \<^verbatim>\<open>Decimal(str(n))\<close> for a Python \<^verbatim>\<open>int\<close>, and the literals of the source.
\<close>

definition Decimal :: "int \<Rightarrow> decimal" where
  "Decimal n = \<lparr>d_sign = (n < 0), d_int = nat \<bar>n\<bar>, d_exp = 0\<rparr>"

definition cent :: decimal where
  "cent = \<lparr>d_sign = False, d_int = 1, d_exp = - 2\<rparr>"


text \<open>
  The rounding functions \<^verbatim>\<open>_round_half_up(self, prec)\<close> and \<^verbatim>\<open>_round_half_even(self, prec)\<close>
  look at the digit string from index \<^verbatim>\<open>prec\<close> on. Here the second argument \<open>k\<close> is the
  number of digits from that index to the end, \<open>k = len(self._int) - prec \<ge> 1\<close>, so that
  \<^verbatim>\<open>self._int[prec]\<close> is \<open>(c div 10^(k-1)) mod 10\<close>, \<^verbatim>\<open>_all_zeros(self._int, prec)\<close> is
  \<open>c mod 10^k = 0\<close>, \<^verbatim>\<open>_exact_half(self._int, prec)\<close> is \<open>c mod 10^k = 5 * 10^(k-1)\<close>, and the
  kept prefix \<^verbatim>\<open>self._int[:prec] or '0'\<close> is \<open>c div 10^k\<close>. The result is \<open>1\<close> (round away
  from zero), \<open>0\<close> (only zeros are dropped) or \<open>-1\<close> (truncate a nonzero tail).
\<close>

definition round_half_up :: "nat \<Rightarrow> nat \<Rightarrow> int" where
  "round_half_up c k =
     (if 5 \<le> (c div 10 ^ (k - 1)) mod 10 then 1
      else if c mod 10 ^ k = 0 then 0
      else - 1)"

definition round_half_even :: "nat \<Rightarrow> nat \<Rightarrow> int" where
  "round_half_even c k =
     (if c mod 10 ^ k = 5 * 10 ^ (k - 1) \<and> even (c div 10 ^ k) then - 1
      else round_half_up c k)"

fun pick_rounding_function :: "rounding \<Rightarrow> nat \<Rightarrow> nat \<Rightarrow> int" where
  "pick_rounding_function ROUND_HALF_UP = round_half_up"
| "pick_rounding_function ROUND_HALF_EVEN = round_half_even"

text \<open>
  \<^verbatim>\<open>Decimal._rescale(exp, rounding)\<close>: pad with zeros or drop digits so that the exponent
  becomes \<open>exp\<close>. When the number lies wholly below the last kept position
  (\<open>digits < 0\<close>) the library replaces it by \<open>10^(exp-1)\<close> before rounding: coefficient
  \<open>1\<close> with one digit to drop.
\<close>

definition dec_rescale :: "decimal \<Rightarrow> int \<Rightarrow> rounding \<Rightarrow> decimal" where
  "dec_rescale self expn rnd =
     (if d_int self = 0 then \<lparr>d_sign = d_sign self, d_int = 0, d_exp = expn\<rparr>
      else if expn \<le> d_exp self then
        \<lparr>d_sign = d_sign self, d_int = d_int self * 10 ^ nat (d_exp self - expn), d_exp = expn\<rparr>
      else
        let digits = int (ndigits (d_int self)) + d_exp self - expn;
            (c, k) = (if digits < 0 then (1, 1) else (d_int self, nat (expn - d_exp self)));
            changed = pick_rounding_function rnd c k;
            coeff = c div 10 ^ k
        in \<lparr>d_sign = d_sign self,
            d_int = (if changed = 1 then coeff + 1 else coeff),
            d_exp = expn\<rparr>)"

text \<open>
  \<^verbatim>\<open>Decimal._fix(context)\<close>: round to the context's precision with the context's rounding,
  \<^verbatim>\<open>ROUND_HALF_EVEN\<close>, and keep the exponent inside \<open>[Etiny, Emax]\<close>. \<^verbatim>\<open>Overflow\<close> is trapped
  and so raised; \<^verbatim>\<open>Underflow\<close>, \<^verbatim>\<open>Subnormal\<close>, \<^verbatim>\<open>Inexact\<close>, \<^verbatim>\<open>Rounded\<close> and \<^verbatim>\<open>Clamped\<close> are
  not trapped and only set flags, which the calculator never reads.
\<close>

definition dec_fix :: "decimal \<Rightarrow> error + decimal" where
  "dec_fix self =
     (if d_int self = 0 then
        Inr \<lparr>d_sign = d_sign self, d_int = 0, d_exp = min (max (d_exp self) Etiny) Emax\<rparr>
      else
        let exp_min = int (ndigits (d_int self)) + d_exp self - prec in
        if Etop < exp_min then Inl Overflow
        else
          let exp_min = (if exp_min < Etiny then Etiny else exp_min) in
          if d_exp self < exp_min then
            let digits = int (ndigits (d_int self)) + d_exp self - exp_min;
                (c, k) = (if digits < 0 then (1, 1) else (d_int self, nat (exp_min - d_exp self)));
                changed = round_half_even c k;
                coeff = (if 0 < changed then c div 10 ^ k + 1 else c div 10 ^ k);
                (coeff, exp_min) =
                   (if 0 < changed \<and> prec < int (ndigits coeff)
                    then (coeff div 10, exp_min + 1) else (coeff, exp_min))
            in if Etop < exp_min then Inl Overflow
               else Inr \<lparr>d_sign = d_sign self, d_int = coeff, d_exp = exp_min\<rparr>
          else Inr self)"

text \<open>
  \<^verbatim>\<open>_normalize(op1, op2, prec)\<close>, used by addition: bring both operands to the smaller
  exponent. An operand too small to reach the rounding position of the other is replaced
  by \<open>1\<close> at an exponent just below that position, which keeps the coefficients short and
  does not change the rounded sum. Operands are pairs (coefficient, exponent).
\<close>

definition dec_normalize :: "nat \<times> int \<Rightarrow> nat \<times> int \<Rightarrow> (nat \<times> int) \<times> (nat \<times> int)" where
  "dec_normalize op1 op2 =
     (let (tmp, other) = (if snd op1 < snd op2 then (op2, op1) else (op1, op2));
          tmp_len = int (ndigits (fst tmp));
          other_len = int (ndigits (fst other));
          expn = snd tmp + min (- 1) (tmp_len - prec - 2);
          other = (if other_len + snd other - 1 < expn then (1, expn) else other);
          tmp = (fst tmp * 10 ^ nat (snd tmp - snd other), snd other)
      in if snd op1 < snd op2 then (other, tmp) else (tmp, other))"

text \<open>
  \<^verbatim>\<open>Decimal.__add__\<close>. The context's rounding is not \<^verbatim>\<open>ROUND_FLOOR\<close>, so \<^verbatim>\<open>negativezero\<close>
  is \<open>0\<close>: an exact zero sum of opposite signs is positive, and the zero sum of two zeros
  is negative only when both are.
\<close>

definition dec_add :: "decimal \<Rightarrow> decimal \<Rightarrow> error + decimal" where
  "dec_add self other =
     (let expn = min (d_exp self) (d_exp other) in
      if d_int self = 0 \<and> d_int other = 0 then
        dec_fix \<lparr>d_sign = (d_sign self \<and> d_sign other), d_int = 0, d_exp = expn\<rparr>
      else if d_int self = 0 then
        dec_fix (dec_rescale other (max expn (d_exp other - prec - 1)) ROUND_HALF_EVEN)
      else if d_int other = 0 then
        dec_fix (dec_rescale self (max expn (d_exp self - prec - 1)) ROUND_HALF_EVEN)
      else
        let ((i1, e1), (i2, e2)) =
              dec_normalize (d_int self, d_exp self) (d_int other, d_exp other)
        in if d_sign self \<noteq> d_sign other then
             if i1 = i2 then dec_fix \<lparr>d_sign = False, d_int = 0, d_exp = expn\<rparr>
             else if i1 < i2 then dec_fix \<lparr>d_sign = d_sign other, d_int = i2 - i1, d_exp = e2\<rparr>
             else dec_fix \<lparr>d_sign = d_sign self, d_int = i1 - i2, d_exp = e1\<rparr>
           else dec_fix \<lparr>d_sign = d_sign self, d_int = i1 + i2, d_exp = e1\<rparr>)"

text \<open>\<^verbatim>\<open>Decimal.copy_negate\<close> and \<^verbatim>\<open>Decimal.__sub__\<close>, which adds the negated operand.\<close>

definition copy_negate :: "decimal \<Rightarrow> decimal" where
  "copy_negate self = \<lparr>d_sign = (\<not> d_sign self), d_int = d_int self, d_exp = d_exp self\<rparr>"

definition dec_sub :: "decimal \<Rightarrow> decimal \<Rightarrow> error + decimal" where
  "dec_sub self other = dec_add self (copy_negate other)"

text \<open>
  \<^verbatim>\<open>Decimal.__mul__\<close>. Its special cases for a zero operand and for a coefficient \<open>1\<close>
  build the same triple as the general case, the product of the coefficients at the sum
  of the exponents, and round it.
\<close>

definition dec_mul :: "decimal \<Rightarrow> decimal \<Rightarrow> error + decimal" where
  "dec_mul self other =
     dec_fix \<lparr>d_sign = (d_sign self \<noteq> d_sign other),
              d_int = d_int self * d_int other,
              d_exp = d_exp self + d_exp other\<rparr>"

text \<open>
  \<^verbatim>\<open>Decimal.__truediv__\<close>. \<open>x / 0\<close> signals \<^verbatim>\<open>DivisionByZero\<close> and \<open>0 / 0\<close> signals
  \<^verbatim>\<open>DivisionUndefined\<close>, a subclass of \<^verbatim>\<open>InvalidOperation\<close>; both are trapped. The loop
  that strips trailing zeros of an exact quotient is \<open>div_strip\<close>.
\<close>

function div_strip :: "nat \<Rightarrow> int \<Rightarrow> int \<Rightarrow> nat \<times> int" where
  "div_strip coeff expn ideal_exp =
     (if expn < ideal_exp \<and> coeff mod 10 = 0
      then div_strip (coeff div 10) (expn + 1) ideal_exp
      else (coeff, expn))"
  by pat_completeness auto
termination
  by (relation "measure (\<lambda>(coeff, expn, ideal_exp). nat (ideal_exp - expn))") auto

declare div_strip.simps [simp del]

definition dec_truediv :: "decimal \<Rightarrow> decimal \<Rightarrow> error + decimal" where
  "dec_truediv self other =
     (if d_int other = 0 then
        (if d_int self = 0 then Inl InvalidOperation else Inl DivisionByZero)
      else if d_int self = 0 then
        dec_fix \<lparr>d_sign = (d_sign self \<noteq> d_sign other), d_int = 0,
                 d_exp = d_exp self - d_exp other\<rparr>
      else
        let shift = int (ndigits (d_int other)) - int (ndigits (d_int self)) + prec + 1;
            expn = d_exp self - d_exp other - shift;
            num = (if 0 \<le> shift then d_int self * 10 ^ nat shift else d_int self);
            den = (if 0 \<le> shift then d_int other else d_int other * 10 ^ nat (- shift));
            coeff = num div den;
            remainder = num mod den;
            (coeff, expn) =
               (if remainder \<noteq> 0 then ((if coeff mod 5 = 0 then coeff + 1 else coeff), expn)
                else div_strip coeff expn (d_exp self - d_exp other))
        in dec_fix \<lparr>d_sign = (d_sign self \<noteq> d_sign other), d_int = coeff, d_exp = expn\<rparr>)"

text \<open>
  \<^verbatim>\<open>Decimal.__pow__\<close> with an integer exponent; the source's exponent is always
  \<^verbatim>\<open>Decimal(str(self.total_payments))\<close>, an integer, so the exponent is taken as an \<open>int\<close>.
  The library first looks for an exact result (\<^verbatim>\<open>_power_exact\<close>) and otherwise raises the
  working precision until the result is \<^emph>\<open>unambiguously roundable\<close>: either way the result
  is the exact power rounded once to the context, which is what is written here, on the
  exact triple \<open>(c^n, e * n)\<close> for \<open>n > 0\<close> and as the rounded quotient \<open>1 / x^(-n)\<close> for
  \<open>n < 0\<close>. The value is the library's; the exponent of an exactly representable power may
  be written differently by the library (more or fewer trailing zeros).

  \<open>x ** 0\<close> is \<open>1\<close> for \<open>x \<noteq> 0\<close> and \<open>0 ** 0\<close> raises \<^verbatim>\<open>InvalidOperation\<close>. \<open>0 ** n\<close> with
  \<open>n < 0\<close> returns an infinity in Python without raising; in
  \<^verbatim>\<open>calculate_monthly_payment\<close>, the only caller, the infinite factor reaches
  \<^verbatim>\<open>principal * (r * factor) / (factor - 1)\<close>, which raises \<^verbatim>\<open>InvalidOperation\<close> (\<open>0 * INF\<close> or
  \<open>INF / INF\<close>), so this case is written as that exception.
\<close>

definition dec_pow :: "decimal \<Rightarrow> int \<Rightarrow> error + decimal" where
  "dec_pow self n =
     (if n = 0 then
        (if d_int self = 0 then Inl InvalidOperation
         else Inr \<lparr>d_sign = False, d_int = 1, d_exp = 0\<rparr>)
      else
        let result_sign = (d_sign self \<and> odd n) in
        if d_int self = 0 then
          (if 0 < n then Inr \<lparr>d_sign = result_sign, d_int = 0, d_exp = 0\<rparr>
           else Inl InvalidOperation)
        else if 0 < n then
          dec_fix \<lparr>d_sign = result_sign, d_int = d_int self ^ nat n, d_exp = d_exp self * n\<rparr>
        else
          dec_truediv \<lparr>d_sign = result_sign, d_int = 1, d_exp = 0\<rparr>
             \<lparr>d_sign = False, d_int = d_int self ^ nat (- n), d_exp = d_exp self * (- n)\<rparr>)"

text \<open>
  \<^verbatim>\<open>Decimal.quantize(exp, rounding)\<close>: rescale to the exponent of \<open>exp\<close>, and raise
  \<^verbatim>\<open>InvalidOperation\<close> when the result would need more than \<open>prec\<close> digits.
\<close>

definition dec_quantize :: "decimal \<Rightarrow> decimal \<Rightarrow> rounding \<Rightarrow> error + decimal" where
  "dec_quantize self expn rnd =
     (if \<not> (Etiny \<le> d_exp expn \<and> d_exp expn \<le> Emax) then Inl InvalidOperation
      else if d_int self = 0 then
        dec_fix \<lparr>d_sign = d_sign self, d_int = 0, d_exp = d_exp expn\<rparr>
      else if Emax < adjusted self then Inl InvalidOperation
      else if prec < adjusted self - d_exp expn + 1 then Inl InvalidOperation
      else
        let ans = dec_rescale self (d_exp expn) rnd in
        if Emax < adjusted ans then Inl InvalidOperation
        else if prec < int (ndigits (d_int ans)) then Inl InvalidOperation
        else dec_fix ans)"

section \<open>The loan calculator\<close>

text \<open>
  An instance of \<^verbatim>\<open>LoanCalculator\<close> holds the five attributes assigned in \<^verbatim>\<open>__init__\<close>.
  \<^verbatim>\<open>Decimal(str(principal))\<close> and \<^verbatim>\<open>Decimal(str(annual_rate))\<close> convert exactly, whatever
  the precision of the context, so the constructor is given the two triples; \<^verbatim>\<open>int(years)\<close>
  is the integer itself. The only operation of the constructor that the context rounds, and
  the only one that can raise, is the division by \<open>12\<close>. There is no check of the sign or
  size of any argument in the source.
\<close>

record loan_calculator =
  principal :: decimal
  annual_rate :: decimal
  years :: int
  monthly_rate :: decimal
  total_payments :: int

definition LoanCalculator_init :: "decimal \<Rightarrow> decimal \<Rightarrow> int \<Rightarrow> error + loan_calculator" where
  "LoanCalculator_init principal_arg annual_rate_arg years_arg =
     (case dec_truediv annual_rate_arg (Decimal 12) of
        Inl e \<Rightarrow> Inl e
      | Inr m \<Rightarrow>
          Inr \<lparr>principal = principal_arg, annual_rate = annual_rate_arg, years = years_arg,
               monthly_rate = m, total_payments = years_arg * 12\<rparr>)"

text \<open>
  A method body runs on the instance \<open>self\<close> and ends with a value or with a raised
  exception; it is a function from the instance to the outcome and the instance afterwards.
  The bodies are built from four steps: \<open>ret\<close> returns a value, \<open>attr\<close> reads an attribute
  of \<open>self\<close>, \<open>compute\<close> takes the outcome of a decimal operation, and \<open>seq\<close> runs a
  step and then, unless it raised, the rest with its value. The source has no assignment
  to an attribute outside \<^verbatim>\<open>__init__\<close>, so no step that writes one is needed.
\<close>

type_synonym 'a body = "loan_calculator \<Rightarrow> (error + 'a) \<times> loan_calculator"

definition ret :: "'a \<Rightarrow> 'a body" where
  "ret x self = (Inr x, self)"

definition attr :: "(loan_calculator \<Rightarrow> 'a) \<Rightarrow> 'a body" where
  "attr f self = (Inr (f self), self)"

definition compute :: "error + 'a \<Rightarrow> 'a body" where
  "compute r self = (r, self)"

definition seq :: "'a body \<Rightarrow> ('a \<Rightarrow> 'b body) \<Rightarrow> 'b body" where
  "seq m f self =
     (case m self of
        (Inl e, self') \<Rightarrow> (Inl e, self')
      | (Inr x, self') \<Rightarrow> f x self')"

text \<open>
  \<^verbatim>\<open>calculate_monthly_payment\<close>, lines 29 to 48. \<^verbatim>\<open>self.annual_rate == 0\<close> compares
  values, so it holds exactly when the coefficient is \<open>0\<close>. The zero-rate branch returns
  the quotient as the context rounds it; only the other branch calls \<^verbatim>\<open>quantize\<close>.
  Python evaluates \<^verbatim>\<open>self.principal * (r * factor) / (factor - Decimal('1'))\<close> as
  the inner product, the outer product, the difference and then the quotient.
\<close>

definition calculate_monthly_payment :: "decimal body" where
  "calculate_monthly_payment =
     seq (attr annual_rate) (\<lambda>rate.
     if d_int rate = 0 then
       seq (attr principal) (\<lambda>p.
       seq (attr total_payments) (\<lambda>tp.
       compute (dec_truediv p (Decimal tp))))
     else
       seq (attr monthly_rate) (\<lambda>r.
       seq (attr total_payments) (\<lambda>n.
       seq (compute (dec_add (Decimal 1) r)) (\<lambda>base.
       seq (compute (dec_pow base n)) (\<lambda>factor.
       seq (attr principal) (\<lambda>p.
       seq (compute (dec_mul r factor)) (\<lambda>rf.
       seq (compute (dec_mul p rf)) (\<lambda>numerator.
       seq (compute (dec_sub factor (Decimal 1))) (\<lambda>denominator.
       seq (compute (dec_truediv numerator denominator)) (\<lambda>monthly_payment.
       compute (dec_quantize monthly_payment cent ROUND_HALF_UP)))))))))))"

text \<open>
  The dictionaries appended to the schedule, lines 71 to 78. The key \<^verbatim>\<open>'principal'\<close> is
  the field \<open>principal_payment\<close>, after the variable it is filled from, since \<open>principal\<close>
  names the attribute of the instance.
\<close>

record payment_record =
  payment :: int
  monthly_payment :: decimal
  interest :: decimal
  principal_payment :: decimal
  balance :: decimal

text \<open>
  \<^verbatim>\<open>generate_amortization_schedule\<close>, lines 50 to 80. \<open>schedule_loop\<close> is the \<^verbatim>\<open>for\<close> loop
  over the payment numbers still to come, with the local variables \<^verbatim>\<open>monthly_payment\<close>,
  \<^verbatim>\<open>balance\<close> and \<^verbatim>\<open>schedule\<close> as arguments; \<^verbatim>\<open>range(1, min(13, self.total_payments + 1))\<close>
  is the list \<open>[1..min 13 (total_payments + 1) - 1]\<close>.
\<close>

fun schedule_loop ::
  "int list \<Rightarrow> decimal \<Rightarrow> decimal \<Rightarrow> payment_record list \<Rightarrow> payment_record list body" where
  "schedule_loop [] monthly bal schedule = ret schedule"
| "schedule_loop (payment_num # rest) monthly bal schedule =
     seq (attr monthly_rate) (\<lambda>r.
     seq (compute (dec_mul bal r)) (\<lambda>product.
     seq (compute (dec_quantize product cent ROUND_HALF_UP)) (\<lambda>interest_payment.
     seq (compute (dec_sub monthly interest_payment)) (\<lambda>principal_paid.
     seq (compute (dec_sub bal principal_paid)) (\<lambda>new_balance.
     seq (compute (dec_quantize new_balance cent ROUND_HALF_UP)) (\<lambda>shown.
     schedule_loop rest monthly new_balance
       (schedule @ [\<lparr>payment = payment_num, monthly_payment = monthly,
                      interest = interest_payment, principal_payment = principal_paid,
                      balance = shown\<rparr>])))))))"

definition generate_amortization_schedule :: "payment_record list body" where
  "generate_amortization_schedule =
     seq calculate_monthly_payment (\<lambda>monthly.
     seq (attr principal) (\<lambda>bal.
     seq (attr total_payments) (\<lambda>tp.
     schedule_loop [1..min 13 (tp + 1) - 1] monthly bal [])))"

text \<open>
  \<^verbatim>\<open>total_interest_paid\<close>, lines 82 to 91. Its \<^verbatim>\<open>quantize\<close> is called without a
  \<^verbatim>\<open>rounding\<close> argument, so the library takes the rounding of the context,
  \<^verbatim>\<open>ROUND_HALF_EVEN\<close>.
\<close>

definition total_interest_paid :: "decimal body" where
  "total_interest_paid =
     seq calculate_monthly_payment (\<lambda>monthly.
     seq (attr total_payments) (\<lambda>tp.
     seq (compute (dec_mul monthly (Decimal tp))) (\<lambda>total_paid.
     seq (attr principal) (\<lambda>p.
     seq (compute (dec_sub total_paid p)) (\<lambda>difference.
     compute (dec_quantize difference cent ROUND_HALF_EVEN))))))"

section \<open>Calls and the attributes of the instance\<close>

text \<open>
  A method body keeps the instance when the instance it ends with is the one it started
  with, whether it returns or raises.
\<close>

definition frame :: "'a body \<Rightarrow> bool" where
  "frame m = (\<forall>self. snd (m self) = self)"

text \<open>
  The three public operations, and the instance a call leaves behind. A caller may go on
  calling after an exception, so a sequence of calls is run to its end.
\<close>

datatype call = CalculateMonthlyPayment | GenerateAmortizationSchedule | TotalInterestPaid

fun after_call :: "call \<Rightarrow> loan_calculator \<Rightarrow> loan_calculator" where
  "after_call CalculateMonthlyPayment self = snd (calculate_monthly_payment self)"
| "after_call GenerateAmortizationSchedule self = snd (generate_amortization_schedule self)"
| "after_call TotalInterestPaid self = snd (total_interest_paid self)"

section \<open>Notions used to state the properties\<close>

text \<open>
  Rounding half-even of a coefficient \<open>c\<close> that loses its last \<open>k\<close> digits goes up exactly
  when the lost part is more than half a unit of the kept part, or is exactly half and the
  kept part is odd.
\<close>

definition round_up_even :: "nat \<Rightarrow> nat \<Rightarrow> bool" where
  "round_up_even c k =
     (5 * 10 ^ (k - 1) < c mod 10 ^ k \<or> (c mod 10 ^ k = 5 * 10 ^ (k - 1) \<and> odd (c div 10 ^ k)))"

section \<open>Running the steps of a method body\<close>

lemma seq_attr: "seq (attr f) g self = g (f self) self"
  by (simp add: seq_def attr_def)

lemma seq_compute:
  "seq (compute r) g self = (case r of Inl e \<Rightarrow> (Inl e, self) | Inr x \<Rightarrow> g x self)"
  by (simp add: seq_def compute_def split: sum.splits)

lemma compute_apply: "compute r self = (r, self)"
  by (simp add: compute_def)

lemma ret_apply: "ret x self = (Inr x, self)"
  by (simp add: ret_def)

lemma frame_ret: "frame (ret x)"
  by (simp add: frame_def ret_def)

lemma frame_attr: "frame (attr f)"
  by (simp add: frame_def attr_def)

lemma frame_compute: "frame (compute r)"
  by (simp add: frame_def compute_def)

lemma frame_seq: "frame m \<Longrightarrow> (\<And>x. frame (f x)) \<Longrightarrow> frame (seq m f)"
proof -
  assume m: "frame m" and f: "\<And>x. frame (f x)"
  show "frame (seq m f)"
    unfolding frame_def
  proof
    fix self
    obtain r s where rs: "m self = (r, s)" by (cases "m self")
    with m have s: "s = self" by (auto simp add: frame_def dest: spec [of _ self])
    show "snd (seq m f self) = self"
    proof (cases r)
      case (Inl e)
      with rs s show ?thesis by (simp add: seq_def)
    next
      case (Inr x)
      from f have "snd (f x self) = self" by (simp add: frame_def)
      with rs s Inr show ?thesis by (simp add: seq_def)
    qed
  qed
qed

lemma frame_if: "frame a \<Longrightarrow> frame b \<Longrightarrow> frame (if c then a else b)"
  by simp

lemma seq_frame:
  "frame m \<Longrightarrow>
   seq m g self = (case fst (m self) of Inl e \<Rightarrow> (Inl e, self) | Inr x \<Rightarrow> g x self)"
proof -
  assume m: "frame m"
  obtain r s where rs: "m self = (r, s)" by (cases "m self")
  with m have "s = self" by (auto simp add: frame_def dest: spec [of _ self])
  with rs show ?thesis by (cases r) (simp_all add: seq_def)
qed

lemma frame_calculate_monthly_payment: "frame calculate_monthly_payment"
  unfolding calculate_monthly_payment_def
  by (intro frame_seq frame_attr frame_compute frame_if)

lemma frame_schedule_loop: "frame (schedule_loop nums monthly bal schedule)"
proof (induction nums arbitrary: bal schedule)
  case Nil
  show ?case by (simp add: frame_ret)
next
  case (Cons payment_num rest)
  show ?case
    unfolding schedule_loop.simps
    by (intro frame_seq frame_attr frame_compute Cons.IH)
qed

lemma frame_generate_amortization_schedule: "frame generate_amortization_schedule"
  unfolding generate_amortization_schedule_def
  by (intro frame_seq frame_attr frame_calculate_monthly_payment frame_schedule_loop)

lemma frame_total_interest_paid: "frame total_interest_paid"
  unfolding total_interest_paid_def
  by (intro frame_seq frame_attr frame_compute frame_calculate_monthly_payment)

lemma after_call_same: "after_call c self = self"
  using frame_calculate_monthly_payment frame_generate_amortization_schedule
    frame_total_interest_paid
  by (cases c) (simp_all add: frame_def)

section \<open>Digits and rounding to the precision of the context\<close>

lemma ndigits_pos: "0 < ndigits n"
  by (subst ndigits.simps) simp

lemma ndigits_less: "n < 10 ^ ndigits n"
proof (induction n rule: ndigits.induct)
  case (1 n)
  show ?case
  proof (cases "n < 10")
    case True
    then show ?thesis by (subst ndigits.simps) simp
  next
    case False
    with 1 have "n div 10 < 10 ^ ndigits (n div 10)" by simp
    then have "n < 10 * 10 ^ ndigits (n div 10)" by linarith
    with False show ?thesis by (subst ndigits.simps) simp
  qed
qed

lemma ndigits_ge: "0 < n \<Longrightarrow> 10 ^ (ndigits n - 1) \<le> n"
proof (induction n rule: ndigits.induct)
  case (1 n)
  show ?case
  proof (cases "n < 10")
    case True
    with 1 show ?thesis by (subst ndigits.simps) simp
  next
    case False
    then have pos: "0 < n div 10" by simp
    with 1 False have "10 ^ (ndigits (n div 10) - 1) \<le> n div 10" by simp
    then have "10 * 10 ^ (ndigits (n div 10) - 1) \<le> n" by linarith
    moreover have "0 < ndigits (n div 10)" by (rule ndigits_pos)
    ultimately have "10 ^ ndigits (n div 10) \<le> n"
      by (cases "ndigits (n div 10)") simp_all
    with False show ?thesis by (subst ndigits.simps) simp
  qed
qed

lemma ndigits_eqI: "10 ^ k \<le> n \<Longrightarrow> n < 10 ^ Suc k \<Longrightarrow> ndigits n = Suc k"
proof -
  assume lo: "10 ^ k \<le> n" and hi: "n < 10 ^ Suc k"
  from lo have pos: "0 < n" by (metis less_le_trans zero_less_numeral zero_less_power)
  have "(10::nat) ^ (ndigits n - 1) < 10 ^ Suc k"
    using ndigits_ge [OF pos] hi by linarith
  then have a: "ndigits n - 1 < Suc k"
    by (rule power_less_imp_less_exp [rotated]) simp
  have "(10::nat) ^ k < 10 ^ ndigits n"
    using ndigits_less [of n] lo by linarith
  then have b: "k < ndigits n"
    by (rule power_less_imp_less_exp [rotated]) simp
  from a b show ?thesis by linarith
qed

lemma ndigits_le_iff: "0 < k \<Longrightarrow> ndigits n \<le> k \<longleftrightarrow> n < 10 ^ k"
proof
  assume "ndigits n \<le> k"
  then have "(10::nat) ^ ndigits n \<le> 10 ^ k" by simp
  with ndigits_less [of n] show "n < 10 ^ k" by linarith
next
  assume k: "0 < k" and n: "n < 10 ^ k"
  show "ndigits n \<le> k"
  proof (cases "n = 0")
    case True
    with k show ?thesis by (subst ndigits.simps) simp
  next
    case False
    then have "0 < n" by simp
    then have "10 ^ (ndigits n - 1) \<le> n" by (rule ndigits_ge)
    with n have "(10::nat) ^ (ndigits n - 1) < 10 ^ k" by linarith
    then have "ndigits n - 1 < k"
      by (rule power_less_imp_less_exp [rotated]) simp
    then show ?thesis by linarith
  qed
qed

lemma digit_ge5:
  "0 < k \<Longrightarrow> (5 \<le> (c div 10 ^ (k - 1)) mod 10) = (5 * 10 ^ (k - 1) \<le> c mod 10 ^ k)" for c :: nat
proof -
  assume k: "0 < k"
  then obtain j where j: "k = Suc j" by (cases k) auto
  have "(c div 10 ^ j) mod 10 = (c mod (10 ^ j * 10)) div 10 ^ j"
    by (simp add: mod_mult2_eq)
  moreover have "(5 \<le> (c mod (10 ^ j * 10)) div 10 ^ j) = (5 * 10 ^ j \<le> c mod (10 ^ j * 10))"
    by (simp add: less_eq_div_iff_mult_less_eq)
  ultimately show ?thesis using j by (simp add: mult.commute)
qed

lemma dec_fix_zero: "dec_fix \<lparr>d_sign = s, d_int = 0, d_exp = e\<rparr> =
    Inr \<lparr>d_sign = s, d_int = 0, d_exp = min (max e Etiny) Emax\<rparr>"
  by (simp add: dec_fix_def)

lemma dec_fix_exact:
  assumes "0 < c" "c < 10 ^ 10" "Etiny \<le> e" "e \<le> Etop"
  shows "dec_fix \<lparr>d_sign = s, d_int = c, d_exp = e\<rparr> = Inr \<lparr>d_sign = s, d_int = c, d_exp = e\<rparr>"
proof -
  from assms(2) have "ndigits c \<le> 10" by (simp add: ndigits_le_iff)
  with assms show ?thesis
    by (simp add: dec_fix_def Let_def prec_def)
qed

lemma round_half_even_pos:
  "0 < k \<Longrightarrow> (0 < round_half_even c k) = round_up_even c k"
proof -
  assume "0 < k"
  then have d: "(5 \<le> (c div 10 ^ (k - 1)) mod 10) = (5 * 10 ^ (k - 1) \<le> c mod 10 ^ k)"
    by (rule digit_ge5)
  show ?thesis
    unfolding round_half_even_def round_half_up_def round_up_even_def
    using d by auto
qed

lemma dec_fix_round:
  assumes lo: "10 ^ (9 + k) \<le> c" and hi: "c < 10 ^ (10 + k)" and k: "0 < k"
    and tiny: "Etiny \<le> e + int k" and top: "e + int k < Etop"
  shows "dec_fix \<lparr>d_sign = s, d_int = c, d_exp = e\<rparr> =
     Inr (if round_up_even c k
          then (if c div 10 ^ k + 1 = 10 ^ 10
                then \<lparr>d_sign = s, d_int = 10 ^ 9, d_exp = e + int k + 1\<rparr>
                else \<lparr>d_sign = s, d_int = c div 10 ^ k + 1, d_exp = e + int k\<rparr>)
          else \<lparr>d_sign = s, d_int = c div 10 ^ k, d_exp = e + int k\<rparr>)"
proof -
  from lo hi have L: "ndigits c = 10 + k"
    using ndigits_eqI [of "9 + k" c] by simp
  have "0 < (10::nat) ^ (9 + k)" by simp
  with lo have c0: "c \<noteq> 0" by linarith
  have q: "c div 10 ^ k < 10 ^ 10"
    using hi by (simp add: less_mult_imp_div_less power_add)
  have dig: "(10 < ndigits (c div 10 ^ k + 1)) = (c div 10 ^ k + 1 = 10 ^ 10)"
  proof -
    have "(10 < ndigits (c div 10 ^ k + 1)) = (\<not> c div 10 ^ k + 1 < 10 ^ 10)"
      using ndigits_le_iff [of 10 "c div 10 ^ k + 1"] by auto
    with q show ?thesis by auto
  qed
  have n: "nat (int k) = k" "int k + e - e = int k" by simp_all
  show ?thesis
    unfolding dec_fix_def Let_def
    apply (simp only: decimal.select_convs L prec_def)
    using c0 k tiny top dig
    apply (simp add: round_half_even_pos)
    done
qed

text \<open>
  The rules that evaluate a decimal operation on numerals. The recursive equations of
  \<open>ndigits\<close> and \<open>div_strip\<close> are used on numerals only, and \<open>dec_fix\<close> is evaluated
  by the three lemmas above, with the number of dropped digits tried from \<open>1\<close> to \<open>14\<close>.
\<close>

lemma ndigits_numeral:
  "ndigits 0 = 1"
  "ndigits 1 = 1"
  "ndigits (Suc 0) = 1"
  "ndigits (numeral n) = (if (numeral n :: nat) < 10 then 1 else Suc (ndigits (numeral n div 10)))"
  by (subst ndigits.simps, simp)+

lemma div_strip_numeral:
  "div_strip 1 e i = (1, e)"
  "div_strip (Suc 0) e i = (Suc 0, e)"
  "div_strip (numeral c) e i =
     (if e < i \<and> (numeral c :: nat) mod 10 = 0
      then div_strip (numeral c div 10) (e + 1) i else (numeral c, e))"
  by (subst div_strip.simps, simp)+

lemmas dec_fix_eval =
  dec_fix_zero dec_fix_exact
  dec_fix_round [where k = 1]
  dec_fix_round [where k = 2]
  dec_fix_round [where k = 3]
  dec_fix_round [where k = 4]
  dec_fix_round [where k = 5]
  dec_fix_round [where k = 6]
  dec_fix_round [where k = 7]
  dec_fix_round [where k = 8]
  dec_fix_round [where k = 9]
  dec_fix_round [where k = 10]
  dec_fix_round [where k = 11]
  dec_fix_round [where k = 12]
  dec_fix_round [where k = 13]
  dec_fix_round [where k = 14]
  round_up_even_def Etiny_def Etop_def Emin_def Emax_def prec_def

lemmas dec_eval =
  dec_truediv_def dec_mul_def dec_add_def dec_sub_def dec_quantize_def
  dec_rescale_def dec_normalize_def copy_negate_def adjusted_def
  round_half_even_def round_half_up_def Decimal_def cent_def Let_def
  ndigits_numeral div_strip_numeral dec_fix_eval


lemmas body_eval =
  seq_attr seq_compute compute_apply ret_apply
  seq_frame [OF frame_calculate_monthly_payment]

section \<open>A one-year loan of 1000.015 at 5 per cent\<close>

text \<open>
  The monthly rate is \<open>0.05 / 12 = 0.004166666667\<close>, the factor
  \<open>1.004166667 ** 12 = 1.051161902\<close>, and the payment \<open>85.61\<close>.
\<close>

lemma init_1000015:
  "LoanCalculator_init \<lparr>d_sign = False, d_int = 1000015, d_exp = - 3\<rparr>
      \<lparr>d_sign = False, d_int = 5, d_exp = - 2\<rparr> 1 =
    Inr \<lparr>principal = \<lparr>d_sign = False, d_int = 1000015, d_exp = - 3\<rparr>,
         annual_rate = \<lparr>d_sign = False, d_int = 5, d_exp = - 2\<rparr>, years = 1,
         monthly_rate = \<lparr>d_sign = False, d_int = 4166666667, d_exp = - 12\<rparr>,
         total_payments = 12\<rparr>"
  by (simp add: LoanCalculator_init_def dec_eval)

lemma payment_1000015:
  "fst (calculate_monthly_payment
      \<lparr>principal = \<lparr>d_sign = False, d_int = 1000015, d_exp = - 3\<rparr>,
       annual_rate = \<lparr>d_sign = False, d_int = 5, d_exp = - 2\<rparr>, years = 1,
       monthly_rate = \<lparr>d_sign = False, d_int = 4166666667, d_exp = - 12\<rparr>,
       total_payments = 12\<rparr>) = Inr \<lparr>d_sign = False, d_int = 8561, d_exp = - 2\<rparr>"
  by (simp add: calculate_monthly_payment_def body_eval dec_pow_def dec_eval
      dec_fix_round [where k = 99])

section \<open>The first example of the source: 250000 at 4.5 per cent over 30 years\<close>

text \<open>
  The factor is \<open>1.00375 ** 360\<close>. The exact power \<open>100375^360\<close> has 1801 digits; it is
  enclosed between two bounds of thirty digits by squaring and multiplying along the
  binary digits of \<open>360\<close>, each product cut to thirty digits, downwards for the lower
  and upwards for the upper bound. The bounds agree on \<open>3.84769804996...\<close>, which the
  context rounds to \<open>3.847698050\<close>.
\<close>

lemma pow_sq_step:
  fixes c :: nat
  assumes b: "lo * 10 ^ s \<le> c ^ n \<and> c ^ n \<le> hi * 10 ^ s"
    and l: "lo' * 10 ^ t \<le> lo * lo" and h: "hi * hi \<le> hi' * 10 ^ t"
    and m: "m = 2 * n" and u: "u = 2 * s + t"
  shows "lo' * 10 ^ u \<le> c ^ m \<and> c ^ m \<le> hi' * 10 ^ u"
proof -
  have cm: "c ^ m = c ^ n * c ^ n" by (simp add: m power_add [symmetric] mult_2)
  have pu: "(10::nat) ^ u = 10 ^ t * (10 ^ s * 10 ^ s)"
    unfolding u mult_2 power_add by simp
  have "lo' * 10 ^ u = (lo' * 10 ^ t) * (10 ^ s * 10 ^ s)" by (simp add: pu)
  also have "\<dots> \<le> (lo * lo) * (10 ^ s * 10 ^ s)" using l by (rule mult_le_mono1)
  also have "\<dots> = (lo * 10 ^ s) * (lo * 10 ^ s)" by simp
  also have "\<dots> \<le> c ^ n * c ^ n" using b by (simp add: mult_le_mono)
  finally have 1: "lo' * 10 ^ u \<le> c ^ m" by (simp add: cm)
  have "c ^ n * c ^ n \<le> (hi * 10 ^ s) * (hi * 10 ^ s)" using b by (simp add: mult_le_mono)
  also have "\<dots> = (hi * hi) * (10 ^ s * 10 ^ s)" by simp
  also have "\<dots> \<le> (hi' * 10 ^ t) * (10 ^ s * 10 ^ s)" using h by (rule mult_le_mono1)
  also have "\<dots> = hi' * 10 ^ u" by (simp add: pu)
  finally have 2: "c ^ m \<le> hi' * 10 ^ u" by (simp add: cm)
  from 1 2 show ?thesis ..
qed

lemma pow_mul_step:
  fixes c :: nat
  assumes b: "lo * 10 ^ s \<le> c ^ n \<and> c ^ n \<le> hi * 10 ^ s"
    and l: "lo' * 10 ^ t \<le> lo * c" and h: "hi * c \<le> hi' * 10 ^ t"
    and m: "m = n + 1" and u: "u = s + t"
  shows "lo' * 10 ^ u \<le> c ^ m \<and> c ^ m \<le> hi' * 10 ^ u"
proof -
  have cm: "c ^ m = c ^ n * c" by (simp add: m)
  have pu: "(10::nat) ^ u = 10 ^ t * 10 ^ s" by (simp add: u power_add mult.commute)
  have "lo' * 10 ^ u = (lo' * 10 ^ t) * 10 ^ s" by (simp add: pu)
  also have "\<dots> \<le> (lo * c) * 10 ^ s" using l by (rule mult_le_mono1)
  also have "\<dots> = (lo * 10 ^ s) * c" by simp
  also have "\<dots> \<le> c ^ n * c" using b by (simp add: mult_le_mono1)
  finally have 1: "lo' * 10 ^ u \<le> c ^ m" by (simp add: cm)
  have "c ^ n * c \<le> (hi * 10 ^ s) * c" using b by (simp add: mult_le_mono1)
  also have "\<dots> = (hi * c) * 10 ^ s" by simp
  also have "\<dots> \<le> (hi' * 10 ^ t) * 10 ^ s" using h by (rule mult_le_mono1)
  also have "\<dots> = hi' * 10 ^ u" by (simp add: pu)
  finally have 2: "c ^ m \<le> hi' * 10 ^ u" by (simp add: cm)
  from 1 2 show ?thesis ..
qed

lemma pow360_bounds:
  fixes c :: nat
  assumes c: "c = 100375"
  shows "384769804996350174350714826773 * 10 ^ 1771 \<le> c ^ 360 \<and> c ^ 360 \<le> 384769804996350174350714827131 * 10 ^ 1771"
proof -
  have b1: "100375 * 10 ^ 0 \<le> c ^ 1 \<and> c ^ 1 \<le> 100375 * 10 ^ 0"
    using c by simp
  have b2: "10075140625 * 10 ^ 0 \<le> c ^ 2 \<and> c ^ 2 \<le> 10075140625 * 10 ^ 0"
    by (rule pow_sq_step [OF b1, where t = 0]) simp_all
  have b4: "101508458613525390625 * 10 ^ 0 \<le> c ^ 4 \<and> c ^ 4 \<le> 101508458613525390625 * 10 ^ 0"
    by (rule pow_sq_step [OF b2, where t = 0]) simp_all
  have b5: "10188911533332611083984375 * 10 ^ 0 \<le> c ^ 5 \<and> c ^ 5 \<le> 10188911533332611083984375 * 10 ^ 0"
    by (rule pow_mul_step [OF b4, where t = 0]) (simp_all add: c)
  have b10: "103813918234078299908334690191 * 10 ^ 21 \<le> c ^ 10 \<and> c ^ 10 \<le> 103813918234078299908334690192 * 10 ^ 21"
    by (rule pow_sq_step [OF b5, where t = 21]) simp_all
  have b11: "104203220427456093532990945279 * 10 ^ 26 \<le> c ^ 11 \<and> c ^ 11 \<le> 104203220427456093532990945281 * 10 ^ 26"
    by (rule pow_mul_step [OF b10, where t = 5]) (simp_all add: c)
  have b22: "108583111474530028922363773563 * 10 ^ 81 \<le> c ^ 22 \<and> c ^ 22 \<le> 108583111474530028922363773568 * 10 ^ 81"
    by (rule pow_sq_step [OF b11, where t = 29]) simp_all
  have b44: "117902920974902148317992203633 * 10 ^ 191 \<le> c ^ 44 \<and> c ^ 44 \<le> 117902920974902148317992203645 * 10 ^ 191"
    by (rule pow_sq_step [OF b22, where t = 29]) simp_all
  have b45: "118345056928558031374184674396 * 10 ^ 196 \<le> c ^ 45 \<and> c ^ 45 \<le> 118345056928558031374184674409 * 10 ^ 196"
    by (rule pow_mul_step [OF b44, where t = 5]) (simp_all add: c)
  have b90: "140055524994236413066753021209 * 10 ^ 421 \<le> c ^ 90 \<and> c ^ 90 \<le> 140055524994236413066753021241 * 10 ^ 421"
    by (rule pow_sq_step [OF b45, where t = 29]) simp_all
  have b180: "196155500814111806123951277958 * 10 ^ 871 \<le> c ^ 180 \<and> c ^ 180 \<le> 196155500814111806123951278049 * 10 ^ 871"
    by (rule pow_sq_step [OF b90, where t = 29]) simp_all
  have b360: "384769804996350174350714826773 * 10 ^ 1771 \<le> c ^ 360 \<and> c ^ 360 \<le> 384769804996350174350714827131 * 10 ^ 1771"
    by (rule pow_sq_step [OF b180, where t = 29]) simp_all
  show ?thesis by (rule b360)
qed
lemma lower_from:
  fixes N :: nat
  assumes "lo * 10 ^ s \<le> N" and "a * 10 ^ j \<le> lo" and "u = j + s"
  shows "a * 10 ^ u \<le> N"
proof -
  have "a * 10 ^ u = (a * 10 ^ j) * 10 ^ s" by (simp add: assms(3) power_add)
  also have "\<dots> \<le> lo * 10 ^ s" using assms(2) by (rule mult_le_mono1)
  finally show ?thesis using assms(1) by linarith
qed

lemma upper_from:
  fixes N :: nat
  assumes "N \<le> hi * 10 ^ s" and "hi < a * 10 ^ j" and "u = j + s"
  shows "N < a * 10 ^ u"
proof -
  have "hi * 10 ^ s < (a * 10 ^ j) * 10 ^ s" using assms(2) by simp
  also have "\<dots> = a * 10 ^ u" by (simp add: assms(3) power_add)
  finally show ?thesis using assms(1) by linarith
qed

lemma dec_fix_round_up_cert:
  assumes lo: "(10 * q + d) * 10 ^ j \<le> N" and hi: "N < (q + 1) * 10 ^ Suc j"
    and d: "5 < d" and q9: "10 ^ 9 \<le> q" and q10: "q + 1 < 10 ^ 10"
    and tiny: "Etiny \<le> e + int (Suc j)" and top: "e + int (Suc j) < Etop"
  shows "dec_fix \<lparr>d_sign = s, d_int = N, d_exp = e\<rparr> =
     Inr \<lparr>d_sign = s, d_int = q + 1, d_exp = e + int (Suc j)\<rparr>"
proof -
  have qN: "q * 10 ^ Suc j + d * 10 ^ j \<le> N"
    using lo by (simp add: algebra_simps)
  then have qN': "q * 10 ^ Suc j \<le> N" by linarith
  have "10 ^ (9 + Suc j) \<le> q * 10 ^ Suc j"
    using q9 by (simp add: power_add)
  with qN' have 1: "10 ^ (9 + Suc j) \<le> N" by linarith
  have "(q + 1) * 10 ^ Suc j \<le> 10 ^ 10 * 10 ^ Suc j"
    using q10 by (intro mult_le_mono1) simp
  with hi have "N < 10 ^ 10 * 10 ^ Suc j" by linarith
  then have 2: "N < 10 ^ (10 + Suc j)" by (simp only: power_add)
  have dv: "N div 10 ^ Suc j = q"
    using qN' hi by (intro div_nat_eqI) (simp_all add: mult.commute)
  have "N mod 10 ^ Suc j = N - q * 10 ^ Suc j"
    using dv by (metis minus_mult_div_eq_mod mult.commute)
  with qN have "d * 10 ^ j \<le> N mod 10 ^ Suc j" by linarith
  moreover have "5 * 10 ^ j < d * 10 ^ j" using d by simp
  ultimately have "5 * 10 ^ j < N mod 10 ^ Suc j" by linarith
  then have r: "round_up_even N (Suc j)" by (simp add: round_up_even_def)
  have ne: "q + 1 \<noteq> 10 ^ 10" using q10 by simp
  show ?thesis
    using dec_fix_round [OF 1 2 _ tiny top, of s] r ne
    by (simp only: dv if_True if_False)
qed

lemma dec_pow_pos:
  "0 < n \<Longrightarrow> c \<noteq> 0 \<Longrightarrow>
   dec_pow \<lparr>d_sign = s, d_int = c, d_exp = e\<rparr> n =
     dec_fix \<lparr>d_sign = (s \<and> odd n), d_int = c ^ nat n, d_exp = e * n\<rparr>"
  by (simp add: dec_pow_def Let_def)

lemma pow360_generic:
  fixes c :: nat
  assumes c: "c = 100375"
  shows "dec_pow \<lparr>d_sign = False, d_int = c, d_exp = - 5\<rparr> 360 =
     Inr \<lparr>d_sign = False, d_int = 3847698050, d_exp = - 9\<rparr>"
proof -
  note b = pow360_bounds [OF c]
  have lo: "(10 * 3847698049 + 9) * 10 ^ 1790 \<le> c ^ 360"
    by (rule lower_from [OF b [THEN conjunct1], where j = 19]) simp_all
  have hi: "c ^ 360 < (3847698049 + 1) * 10 ^ Suc 1790"
    by (rule upper_from [OF b [THEN conjunct2], where j = 20]) simp_all
  have "dec_fix \<lparr>d_sign = False, d_int = c ^ 360, d_exp = - 1800\<rparr> =
     Inr \<lparr>d_sign = False, d_int = 3847698049 + 1, d_exp = - 1800 + int (Suc 1790)\<rparr>"
    by (rule dec_fix_round_up_cert [OF lo hi]) (simp_all add: Etiny_def Etop_def Emin_def Emax_def prec_def)
  moreover have "c \<noteq> 0" using c by simp
  ultimately show ?thesis by (simp add: dec_pow_pos)
qed

lemmas pow_100375_360 = pow360_generic [OF refl]

lemma init_scenario_1:
  "LoanCalculator_init (Decimal 250000) \<lparr>d_sign = False, d_int = 45, d_exp = - 3\<rparr> 30 =
     Inr \<lparr>principal = Decimal 250000,
          annual_rate = \<lparr>d_sign = False, d_int = 45, d_exp = - 3\<rparr>, years = 30,
          monthly_rate = \<lparr>d_sign = False, d_int = 375, d_exp = - 5\<rparr>,
          total_payments = 360\<rparr>"
  by (simp add: LoanCalculator_init_def dec_eval)

lemma payment_scenario_1:
  "fst (calculate_monthly_payment
      \<lparr>principal = Decimal 250000,
       annual_rate = \<lparr>d_sign = False, d_int = 45, d_exp = - 3\<rparr>, years = 30,
       monthly_rate = \<lparr>d_sign = False, d_int = 375, d_exp = - 5\<rparr>,
       total_payments = 360\<rparr>) = Inr \<lparr>d_sign = False, d_int = 126671, d_exp = - 2\<rparr>"
  by (simp add: calculate_monthly_payment_def body_eval dec_eval pow_100375_360)


section \<open>The claims\<close>

text \<open>
  C10. None of \<^verbatim>\<open>calculate_monthly_payment\<close>, \<^verbatim>\<open>generate_amortization_schedule\<close> and
  \<^verbatim>\<open>total_interest_paid\<close> changes an attribute of the instance: after any sequence of calls
  of the three operations, whatever each call returned or raised, the instance is the one
  the sequence started with, so every later call reads the five values set at
  construction.
\<close>

theorem calls_keep_the_instance: "fold after_call calls self = self"
  by (induction calls) (simp_all add: after_call_same)

theorem calls_keep_the_instance_witness:
  "fold after_call [TotalInterestPaid, CalculateMonthlyPayment, GenerateAmortizationSchedule]
     \<lparr>principal = Decimal 50000, annual_rate = Decimal 0, years = 10,
      monthly_rate = Decimal 0, total_payments = 120\<rparr> =
   \<lparr>principal = Decimal 50000, annual_rate = Decimal 0, years = 10,
    monthly_rate = Decimal 0, total_payments = 120\<rparr>"
  by (rule calls_keep_the_instance)




text \<open>
  C2: for a rate of zero the payment is \<open>principal / totalPayments\<close> rounded half-up to two
  places. The zero-rate branch returns in line 35, before the \<^verbatim>\<open>quantize\<close> of line 48 that
  the other branch ends with. For \<open>50000\<close> over ten years, the third example of the source,
  the call returns \<open>416.6666667\<close>, the quotient with the ten digits of the context;
  rounded as the claim says it is \<open>416.67\<close>.
\<close>

theorem zero_rate_payment_not_rounded:
  "LoanCalculator_init (Decimal 50000) (Decimal 0) 10 =
     Inr \<lparr>principal = Decimal 50000, annual_rate = Decimal 0, years = 10,
          monthly_rate = Decimal 0, total_payments = 120\<rparr> \<and>
   fst (calculate_monthly_payment
     \<lparr>principal = Decimal 50000, annual_rate = Decimal 0, years = 10,
      monthly_rate = Decimal 0, total_payments = 120\<rparr>) =
     Inr \<lparr>d_sign = False, d_int = 4166666667, d_exp = - 7\<rparr> \<and>
   dec_quantize \<lparr>d_sign = False, d_int = 4166666667, d_exp = - 7\<rparr> cent ROUND_HALF_UP =
     Inr \<lparr>d_sign = False, d_int = 41667, d_exp = - 2\<rparr>"
  by (simp add: LoanCalculator_init_def calculate_monthly_payment_def
      seq_attr seq_compute compute_apply dec_eval)

text \<open>
  C5: \<^verbatim>\<open>total_interest_paid\<close> returns the total paid minus the principal rounded half-up
  to two places. The \<^verbatim>\<open>quantize\<close> of line 91 is the only one in the source without
  \<^verbatim>\<open>rounding=ROUND_HALF_UP\<close>, so it rounds with the context, half-even. For a one-year
  loan of \<open>1000.015\<close> at 5 per cent the payment is \<open>85.61\<close>, twelve payments are
  \<open>1027.32\<close>, and the difference is \<open>27.305\<close>, a tie: the call returns \<open>27.30\<close>, and
  half-up is \<open>27.31\<close>.
\<close>

theorem total_interest_rounds_half_even:
  "fst (total_interest_paid
      \<lparr>principal = \<lparr>d_sign = False, d_int = 1000015, d_exp = - 3\<rparr>,
       annual_rate = \<lparr>d_sign = False, d_int = 5, d_exp = - 2\<rparr>, years = 1,
       monthly_rate = \<lparr>d_sign = False, d_int = 4166666667, d_exp = - 12\<rparr>,
       total_payments = 12\<rparr>) = Inr \<lparr>d_sign = False, d_int = 2730, d_exp = - 2\<rparr> \<and>
   dec_mul \<lparr>d_sign = False, d_int = 8561, d_exp = - 2\<rparr> (Decimal 12) =
     Inr \<lparr>d_sign = False, d_int = 102732, d_exp = - 2\<rparr> \<and>
   dec_sub \<lparr>d_sign = False, d_int = 102732, d_exp = - 2\<rparr>
       \<lparr>d_sign = False, d_int = 1000015, d_exp = - 3\<rparr> =
     Inr \<lparr>d_sign = False, d_int = 27305, d_exp = - 3\<rparr> \<and>
   dec_quantize \<lparr>d_sign = False, d_int = 27305, d_exp = - 3\<rparr> cent ROUND_HALF_UP =
     Inr \<lparr>d_sign = False, d_int = 2731, d_exp = - 2\<rparr>"
  by (simp add: total_interest_paid_def body_eval payment_1000015 dec_eval)

text \<open>
  C9. For principal \<open>250000\<close>, annual rate \<open>0.045\<close> and \<open>30\<close> years the constructor
  stores the monthly rate \<open>0.00375\<close> and \<open>360\<close> payments, and
  \<^verbatim>\<open>calculate_monthly_payment\<close> returns exactly \<open>1266.71\<close>.
\<close>

theorem scenario_1_monthly_payment:
  "LoanCalculator_init (Decimal 250000) \<lparr>d_sign = False, d_int = 45, d_exp = - 3\<rparr> 30 =
     Inr \<lparr>principal = Decimal 250000,
          annual_rate = \<lparr>d_sign = False, d_int = 45, d_exp = - 3\<rparr>, years = 30,
          monthly_rate = \<lparr>d_sign = False, d_int = 375, d_exp = - 5\<rparr>,
          total_payments = 360\<rparr> \<and>
   fst (calculate_monthly_payment
      \<lparr>principal = Decimal 250000,
       annual_rate = \<lparr>d_sign = False, d_int = 45, d_exp = - 3\<rparr>, years = 30,
       monthly_rate = \<lparr>d_sign = False, d_int = 375, d_exp = - 5\<rparr>,
       total_payments = 360\<rparr>) = Inr \<lparr>d_sign = False, d_int = 126671, d_exp = - 2\<rparr>"
  using init_scenario_1 payment_scenario_1 by simp

end
